theory Spec2Isabelle
  imports Complex_Main
begin

section \<open>Values at the tool boundary\<close>

text \<open>
  The arguments of a tool call arrive as a JSON object. A property that is missing reads
  as \<open>undefined\<close>, which is \<open>None\<close> below; a number is a finite JSON number, taken here as
  a real. A \<open>char\<close> of a \<open>string\<close> stands for one code unit of the JavaScript string.
\<close>

datatype json =
    JNull
  | JBool bool
  | JNumber real
  | JString string
  | JArray "json list"
  | JObject "(string \<times> json) list"

datatype js_type = TUndefined | TObject | TBoolean | TNumber | TString

fun typeof :: "json option \<Rightarrow> js_type" where
  "typeof None = TUndefined"
| "typeof (Some JNull) = TObject"
| "typeof (Some (JBool b)) = TBoolean"
| "typeof (Some (JNumber n)) = TNumber"
| "typeof (Some (JString s)) = TString"
| "typeof (Some (JArray xs)) = TObject"
| "typeof (Some (JObject kvs)) = TObject"

section \<open>Errors\<close>

datatype ErrorCode = InvalidRequest | MethodNotFound | InternalError

text \<open>\<open>new McpError(code, message)\<close>, with the two arguments the source passes.\<close>

datatype McpError = McpError ErrorCode string

text \<open>
  What a \<open>catch (error: any)\<close> clause may receive, as far as the clause looks at it. The
  clause of \<open>executeCode\<close> reads \<open>error.message\<close> twice: once for the log record, once inside
  the template literal of the new message.
  \<^item> For \<open>null\<close> and \<open>undefined\<close> the first read raises a TypeError.
  \<^item> For any other value the first read either runs a getter that throws some value, or
    gives the value that is logged: a string, or something else (\<open>undefined\<close> for a value
    without that property, a Symbol, an object, ...).
  \<^item> The second read and its conversion to text either give a string, or raise a TypeError
    (a Symbol has no implicit conversion), or throw some value (a getter, \<open>toString\<close> or
    \<open>valueOf\<close> that throws).
  A getter may answer its two reads differently, so the two observations are independent.
\<close>

datatype 'v message = Text string | NonText 'v

datatype 'v reading = ReadThrows 'v | ReadGives "'v message"

datatype 'v conversion = ConversionThrows 'v | ConversionTypeError | Converts string

datatype 'v thrown = ThrownNullish | ThrownValue "'v reading" "'v conversion"

text \<open>An Error object whose \<open>message\<close> is a plain data property holding the string \<open>msg\<close>.\<close>

definition thrown_error :: "string \<Rightarrow> 'v thrown" where
  "thrown_error msg = ThrownValue (ReadGives (Text msg)) (Converts msg)"

text \<open>
  What leaves \<open>executeCode\<close> or the tool handler instead of a result: an \<open>McpError\<close>, a
  TypeError raised by the \<open>catch\<close> block's own reads and conversions, or a value thrown by
  code that those reads and conversions run.
\<close>

datatype 'v fault = Mcp McpError | TypeError | Raised 'v

section \<open>The sandbox configuration and the engine\<close>

datatype console_option = ConsoleInherit | ConsoleRedirect | ConsoleOff

datatype wrapper_option = WrapperCommonJS | WrapperNone

text \<open>The object literal handed to \<open>new NodeVM\<close>, key by key.\<close>

record 'v NodeVMOptions =
  vm_console :: console_option
  vm_sandbox :: "(string \<times> 'v) list"
  vm_require :: bool
  vm_timeout :: real
  vm_wrapper :: wrapper_option
  vm_eval :: bool
  vm_wasm :: bool

text \<open>
  One run of a script by the engine: the console events it emitted, in emission order, each
  with its event name (\<open>console.log\<close>, \<open>console.error\<close>, ...) and its arguments, and how the
  run ended (after the \<open>await\<close>). It is the run as it happens with the listener of
  \<open>executeCode\<close> registered: an exception of the listener goes back into the script, and
  what the script does with it is part of the run.
\<close>

datatype 'v completion = Returned 'v | Threw "'v thrown"

record 'v evaluation =
  emitted :: "(string \<times> 'v list) list"
  completion :: "'v completion"

record ExecuteCodeArgs =
  code :: string
  timeout :: "real option"
  memory :: "real option"

record 'v ExecutionResult =
  result :: 'v
  console :: "string list"
  executionTime :: real
  memoryUsage :: nat

text \<open>
  The libraries the source imports and the readings it takes from the host process:
  \<^item> \<open>parse\<close>: acorn's \<open>parse(code, {ecmaVersion: 'latest'})\<close>; \<open>Some msg\<close> is the message of the
    SyntaxError it throws, \<open>None\<close> is acceptance;
  \<^item> \<open>mcp_message\<close>: the \<open>message\<close> property the SDK gives an \<open>McpError\<close>;
  \<^item> \<open>toString\<close>: \<open>String(arg)\<close> on a sandbox value; \<open>None\<close> when the conversion throws (an
    object without \<open>toString\<close> and \<open>valueOf\<close>, such as \<open>Object.create(null)\<close>, or one whose
    \<open>toString\<close> throws);
  \<^item> \<open>vm_run\<close>: \<open>new VMScript(code)\<close> and \<open>vm.run(script)\<close> on a NodeVM with the given options;
  \<^item> \<open>hrtime\<close>: the pair \<open>[seconds, nanoseconds]\<close> of \<open>process.hrtime(startTime)\<close>;
  \<^item> \<open>heapUsed\<close>: the two samples of \<open>process.memoryUsage().heapUsed\<close>, for the log and for
    the result;
  \<^item> \<open>stringify\<close>: \<open>JSON.stringify(result, null, 2)\<close>.
\<close>

record 'v collaborators =
  parse :: "string \<Rightarrow> string option"
  mcp_message :: "McpError \<Rightarrow> string"
  toString :: "'v \<Rightarrow> string option"
  vm_run :: "'v NodeVMOptions \<Rightarrow> string \<Rightarrow> 'v evaluation"
  hrtime :: "nat \<times> nat"
  heapUsed :: "nat \<times> nat"
  stringify :: "'v ExecutionResult \<Rightarrow> string"

text \<open>The calls the source makes on the engine and on the logger, in the order it makes them.\<close>

datatype 'v effect =
    SandboxCreated "'v NodeVMOptions"
  | ConsoleHookRegistered
  | ScriptRun string
  | LoggerInfo real nat nat
  | LoggerError "'v message" string

section \<open>JSSandbox\<close>

definition DEFAULT_TIMEOUT :: real where
  "DEFAULT_TIMEOUT = 5000"

definition DEFAULT_MEMORY :: real where
  "DEFAULT_MEMORY = 50 * 1024 * 1024"

definition FORBIDDEN_PATTERNS :: "string list" where
  "FORBIDDEN_PATTERNS =
     [''process'', ''require'', ''__dirname'', ''__filename'', ''global'', ''Buffer'', ''eval'']"

subsection \<open>String helpers of the language\<close>

fun starts_with :: "string \<Rightarrow> string \<Rightarrow> bool" where
  "starts_with s [] = True"
| "starts_with [] (p # ps) = False"
| "starts_with (c # cs) (p # ps) = (c = p \<and> starts_with cs ps)"

text \<open>\<open>code.includes(pattern)\<close>: the pattern occurs at some position of the text.\<close>

fun str_includes :: "string \<Rightarrow> string \<Rightarrow> bool" where
  "str_includes [] p = (p = [])"
| "str_includes (c # cs) p = (starts_with (c # cs) p \<or> str_includes cs p)"

text \<open>\<open>parts.join(sep)\<close> on an array of strings.\<close>

fun join :: "string \<Rightarrow> string list \<Rightarrow> string" where
  "join sep [] = []"
| "join sep [x] = x"
| "join sep (x # y # ys) = x @ sep @ join sep (y # ys)"

subsection \<open>validateCode\<close>

definition validation_prefix :: string where
  "validation_prefix = ''Erreur de validation du code: ''"

definition forbidden_message :: "string \<Rightarrow> string" where
  "forbidden_message pattern = ''Usage interdit de '' @ [CHR 0x27] @ pattern @ [CHR 0x27]"

text \<open>The \<open>for\<close> loop over the patterns: the first pattern the text includes, if any.\<close>

fun first_forbidden :: "string list \<Rightarrow> string \<Rightarrow> string option" where
  "first_forbidden [] src = None"
| "first_forbidden (pattern # rest) src =
     (if str_includes src pattern then Some pattern else first_forbidden rest src)"

text \<open>
  Both throws of the \<open>try\<close> block (the parser's and the loop's) land in the \<open>catch\<close>, which
  wraps the message in an \<open>McpError\<close> with code \<open>InvalidRequest\<close>.
\<close>

definition validateCode :: "'v collaborators \<Rightarrow> string \<Rightarrow> McpError + unit" where
  "validateCode env src =
     (case parse env src of
        Some msg \<Rightarrow> Inl (McpError InvalidRequest (validation_prefix @ msg))
      | None \<Rightarrow>
          (case first_forbidden FORBIDDEN_PATTERNS src of
             Some pattern \<Rightarrow>
               Inl (McpError InvalidRequest (validation_prefix @ forbidden_message pattern))
           | None \<Rightarrow> Inr ()))"

subsection \<open>createSandbox\<close>

definition createSandbox :: "real \<Rightarrow> real \<Rightarrow> 'v NodeVMOptions" where
  "createSandbox timeout_ms memory_bytes =
     \<lparr> vm_console = ConsoleRedirect,
       vm_sandbox = [],
       vm_require = False,
       vm_timeout = timeout_ms,
       vm_wrapper = WrapperNone,
       vm_eval = False,
       vm_wasm = False \<rparr>"

subsection \<open>executeCode\<close>

definition execution_prefix :: string where
  "execution_prefix = ''Erreur d'' @ [CHR 0x27] @ ''ex'' @ [CHR 0xE9] @ ''cution: ''"

definition effectiveTimeout :: "ExecuteCodeArgs \<Rightarrow> real" where
  "effectiveTimeout args = (case timeout args of None \<Rightarrow> DEFAULT_TIMEOUT | Some t \<Rightarrow> t)"

definition effectiveMemory :: "ExecuteCodeArgs \<Rightarrow> real" where
  "effectiveMemory args = (case memory args of None \<Rightarrow> DEFAULT_MEMORY | Some m \<Rightarrow> m)"

text \<open>
  \<open>args.map(arg => String(arg))\<close>: the conversions run from left to right, and the first one
  that throws ends the \<open>map\<close>.
\<close>

fun map_String :: "'v collaborators \<Rightarrow> 'v list \<Rightarrow> string list option" where
  "map_String env [] = Some []"
| "map_String env (arg # args) =
     (case toString env arg of
        None \<Rightarrow> None
      | Some s \<Rightarrow> (case map_String env args of None \<Rightarrow> None | Some ss \<Rightarrow> Some (s # ss)))"

text \<open>The line that one call of the listener pushes, if its conversions all return.\<close>

definition console_line :: "'v collaborators \<Rightarrow> 'v list \<Rightarrow> string option" where
  "console_line env args =
     (case map_String env args of None \<Rightarrow> None | Some parts \<Rightarrow> Some (join '' '' parts))"

text \<open>
  The listener registered with \<open>vm.on('console.log', ...)\<close>: one push per call, unless a
  conversion throws; then nothing is pushed and the exception leaves the listener.
\<close>

definition on_console_log :: "'v collaborators \<Rightarrow> string list \<Rightarrow> 'v list \<Rightarrow> string list" where
  "on_console_log env consoleOutput args =
     (case console_line env args of
        None \<Rightarrow> consoleOutput
      | Some line \<Rightarrow> consoleOutput @ [line])"

text \<open>
  The engine emits its events one after the other; the emitter calls the listener for the
  events named \<open>console.log\<close>, the only name a listener is registered for.
\<close>

fun deliver :: "'v collaborators \<Rightarrow> string list \<Rightarrow> (string \<times> 'v list) list \<Rightarrow> string list" where
  "deliver env consoleOutput [] = consoleOutput"
| "deliver env consoleOutput ((name, args) # events) =
     deliver env
       (if name = ''console.log'' then on_console_log env consoleOutput args else consoleOutput)
       events"

text \<open>
  The \<open>catch (error: any)\<close> block of \<open>executeCode\<close>. It reads \<open>error.message\<close> to build the
  log record, calls \<open>logger.error\<close>, then reads \<open>error.message\<close> again inside the template
  literal and throws the new \<open>McpError\<close>. A read or a conversion that fails ends the block
  there. The second argument is the trace up to the throw.
\<close>

definition catch_execution ::
  "ExecuteCodeArgs \<Rightarrow> 'v effect list \<Rightarrow> 'v thrown
     \<Rightarrow> ('v fault + 'v ExecutionResult) \<times> 'v effect list" where
  "catch_execution args trace error =
     (case error of
        ThrownNullish \<Rightarrow> (Inl TypeError, trace)
      | ThrownValue first_read second_read \<Rightarrow>
          (case first_read of
             ReadThrows v \<Rightarrow> (Inl (Raised v), trace)
           | ReadGives logged \<Rightarrow>
               (let trace' = trace @ [LoggerError logged (code args)]
                in case second_read of
                     ConversionThrows v \<Rightarrow> (Inl (Raised v), trace')
                   | ConversionTypeError \<Rightarrow> (Inl TypeError, trace')
                   | Converts msg \<Rightarrow>
                       (Inl (Mcp (McpError InternalError (execution_prefix @ msg))),
                        trace'))))"

definition executeCode ::
  "'v collaborators \<Rightarrow> ExecuteCodeArgs \<Rightarrow> ('v fault + 'v ExecutionResult) \<times> 'v effect list" where
  "executeCode env args =
     (let timeout_ms = effectiveTimeout args;
          memory_bytes = effectiveMemory args
      in case validateCode env (code args) of
           Inl err \<Rightarrow> catch_execution args [] (thrown_error (mcp_message env err))
         | Inr u \<Rightarrow>
             (let vm = createSandbox timeout_ms memory_bytes;
                  run = vm_run env vm (code args);
                  consoleOutput = deliver env [] (emitted run);
                  trace = [SandboxCreated vm, ConsoleHookRegistered, ScriptRun (code args)]
              in case completion run of
                   Threw error \<Rightarrow> catch_execution args trace error
                 | Returned v \<Rightarrow>
                     (let elapsed = real (fst (hrtime env)) * 1000
                                      + real (snd (hrtime env)) / 1000000
                      in (Inr \<lparr> result = v,
                                console = consoleOutput,
                                executionTime = elapsed,
                                memoryUsage = snd (heapUsed env) \<rparr>,
                          trace @ [LoggerInfo elapsed (fst (heapUsed env))
                                     (length (code args))]))))"

section \<open>JSSandboxServer: the handler of a tool call\<close>

definition unknown_tool_message :: "string \<Rightarrow> string" where
  "unknown_tool_message name = ''Outil inconnu: '' @ name"

definition code_required_message :: string where
  "code_required_message =
     ''Le param'' @ [CHR 0xE8] @ ''tre '' @ [CHR 0x22] @ ''code'' @ [CHR 0x22]
       @ '' est requis et doit '' @ [CHR 0xEA] @ ''tre une cha'' @ [CHR 0xEE]
       @ ''ne de caract'' @ [CHR 0xE8] @ ''res''"

text \<open>The response: one content item of type \<open>text\<close>.\<close>

datatype ToolResponse = TextContent string

fun number_or_undefined :: "json option \<Rightarrow> real option" where
  "number_or_undefined (Some (JNumber n)) = Some n"
| "number_or_undefined other = None"

text \<open>The object literal \<open>executeArgs\<close>, built once \<open>args.code\<close> is known to be the string \<open>src\<close>.\<close>

definition toExecuteArgs :: "string \<Rightarrow> (string \<rightharpoonup> json) \<Rightarrow> ExecuteCodeArgs" where
  "toExecuteArgs src args =
     \<lparr> code = src,
       timeout = number_or_undefined (args ''timeout''),
       memory = number_or_undefined (args ''memory'') \<rparr>"

definition respond ::
  "'v collaborators \<Rightarrow> ('v fault + 'v ExecutionResult) \<times> 'v effect list
     \<Rightarrow> ('v fault + ToolResponse) \<times> 'v effect list" where
  "respond env outcome =
     (case fst outcome of
        Inl f \<Rightarrow> (Inl f, snd outcome)
      | Inr r \<Rightarrow> (Inr (TextContent (stringify env r)), snd outcome))"

definition callTool ::
  "'v collaborators \<Rightarrow> string \<Rightarrow> (string \<rightharpoonup> json) option
     \<Rightarrow> ('v fault + ToolResponse) \<times> 'v effect list" where
  "callTool env name arguments =
     (if name \<noteq> ''execute_js''
      then (Inl (Mcp (McpError MethodNotFound (unknown_tool_message name))), [])
      else case arguments of
             None \<Rightarrow> (Inl (Mcp (McpError InvalidRequest code_required_message)), [])
           | Some args \<Rightarrow>
               (case args ''code'' of
                  Some (JString src) \<Rightarrow> respond env (executeCode env (toExecuteArgs src args))
                | other \<Rightarrow> (Inl (Mcp (McpError InvalidRequest code_required_message)), [])))"

section \<open>Stand-ins for concrete runs\<close>

text \<open>
  A parser that gives a fixed verdict, an engine that gives a fixed evaluation, the message
  format of the SDK's \<open>McpError\<close> (\<open>MCP error <code>: <message>\<close>), sandbox values
  written as their text (with \<open>Object.create(null)\<close> for an object that \<open>String\<close> cannot
  convert), and fixed readings of the clock and of the heap.
\<close>

fun sdk_code :: "ErrorCode \<Rightarrow> string" where
  "sdk_code InvalidRequest = ''-32600''"
| "sdk_code MethodNotFound = ''-32601''"
| "sdk_code InternalError = ''-32603''"

fun sdk_message :: "McpError \<Rightarrow> string" where
  "sdk_message (McpError c msg) = ''MCP error '' @ sdk_code c @ '': '' @ msg"

definition scenario :: "string option \<Rightarrow> string evaluation \<Rightarrow> string collaborators" where
  "scenario verdict run =
     \<lparr> parse = (\<lambda>src. verdict),
       mcp_message = sdk_message,
       toString = (\<lambda>v. if v = ''Object.create(null)'' then None else Some v),
       vm_run = (\<lambda>opts src. run),
       hrtime = (0, 2000000),
       heapUsed = (4194304, 4194560),
       stringify = (\<lambda>r. join ''; '' (result r # console r)) \<rparr>"

text \<open>A run that writes nothing and ends without a value.\<close>

definition quiet :: "string evaluation" where
  "quiet = \<lparr> emitted = [], completion = Returned ''undefined'' \<rparr>"

section \<open>Properties of the helpers\<close>

lemma starts_with_iff: "starts_with s p \<longleftrightarrow> (\<exists>post. s = p @ post)"
  by (induction s p rule: starts_with.induct) auto

lemma str_includes_iff: "str_includes s p \<longleftrightarrow> (\<exists>pre post. s = pre @ p @ post)"
proof (induction s)
  case Nil
  then show ?case by simp
next
  case (Cons c cs)
  show ?case
  proof
    assume "str_includes (c # cs) p"
    then consider "starts_with (c # cs) p" | "str_includes cs p" by auto
    then show "\<exists>pre post. c # cs = pre @ p @ post"
    proof cases
      case 1
      then obtain post where "c # cs = p @ post" using starts_with_iff by blast
      then have "c # cs = [] @ p @ post" by simp
      then show ?thesis by blast
    next
      case 2
      then obtain pre post where "cs = pre @ p @ post" using Cons.IH by blast
      then have "c # cs = (c # pre) @ p @ post" by simp
      then show ?thesis by blast
    qed
  next
    assume "\<exists>pre post. c # cs = pre @ p @ post"
    then obtain pre post where eq: "c # cs = pre @ p @ post" by blast
    show "str_includes (c # cs) p"
    proof (cases pre)
      case Nil
      with eq have "starts_with (c # cs) p" using starts_with_iff by auto
      then show ?thesis by simp
    next
      case (Cons d ds)
      with eq have "cs = ds @ p @ post" by simp
      then have "str_includes cs p" using Cons.IH by blast
      then show ?thesis by simp
    qed
  qed
qed

lemma first_forbidden_None:
  "first_forbidden ps s = None \<longleftrightarrow> (\<forall>p \<in> set ps. \<not> str_includes s p)"
  by (induction ps) auto

lemma first_forbidden_Some:
  "first_forbidden ps s = Some p \<longleftrightarrow>
     (\<exists>i < length ps. ps ! i = p \<and> str_includes s p \<and> (\<forall>j < i. \<not> str_includes s (ps ! j)))"
proof (induction ps)
  case Nil
  then show ?case by simp
next
  case (Cons q qs)
  show ?case
  proof (cases "str_includes s q")
    case True
    have "(\<exists>i < length (q # qs). (q # qs) ! i = p \<and> str_includes s p
             \<and> (\<forall>j < i. \<not> str_includes s ((q # qs) ! j))) \<longleftrightarrow> q = p"
    proof
      assume "\<exists>i < length (q # qs). (q # qs) ! i = p \<and> str_includes s p
                \<and> (\<forall>j < i. \<not> str_includes s ((q # qs) ! j))"
      then obtain i where i: "(q # qs) ! i = p" "\<forall>j < i. \<not> str_includes s ((q # qs) ! j)"
        by blast
      have "i = 0"
      proof (rule ccontr)
        assume "i \<noteq> 0"
        then have "\<not> str_includes s ((q # qs) ! 0)" using i(2) by blast
        with True show False by simp
      qed
      with i(1) show "q = p" by simp
    next
      assume "q = p"
      with True have "0 < length (q # qs) \<and> (q # qs) ! 0 = p \<and> str_includes s p
                \<and> (\<forall>j < 0. \<not> str_includes s ((q # qs) ! j))" by simp
      then show "\<exists>i < length (q # qs). (q # qs) ! i = p \<and> str_includes s p
                \<and> (\<forall>j < i. \<not> str_includes s ((q # qs) ! j))" by blast
    qed
    with True show ?thesis by auto
  next
    case False
    have "(\<exists>i < length (q # qs). (q # qs) ! i = p \<and> str_includes s p
             \<and> (\<forall>j < i. \<not> str_includes s ((q # qs) ! j)))
          \<longleftrightarrow> (\<exists>i < length qs. qs ! i = p \<and> str_includes s p
             \<and> (\<forall>j < i. \<not> str_includes s (qs ! j)))" (is "?L \<longleftrightarrow> ?R")
    proof
      assume ?L
      then obtain i where i: "i < length (q # qs)" "(q # qs) ! i = p" "str_includes s p"
        "\<forall>j < i. \<not> str_includes s ((q # qs) ! j)" by blast
      from i(2,3) False have "i \<noteq> 0" by (cases i) auto
      then obtain k where k: "i = Suc k" by (cases i) auto
      have "\<forall>j < k. \<not> str_includes s (qs ! j)"
      proof (intro allI impI)
        fix j assume "j < k"
        then have "Suc j < i" using k by simp
        then have "\<not> str_includes s ((q # qs) ! Suc j)" using i(4) by blast
        then show "\<not> str_includes s (qs ! j)" by simp
      qed
      with i k have "k < length qs \<and> qs ! k = p \<and> str_includes s p
          \<and> (\<forall>j < k. \<not> str_includes s (qs ! j))" by simp
      then show ?R by blast
    next
      assume ?R
      then obtain k where k: "k < length qs" "qs ! k = p" "str_includes s p"
        "\<forall>j < k. \<not> str_includes s (qs ! j)" by blast
      have "\<forall>j < Suc k. \<not> str_includes s ((q # qs) ! j)"
      proof (intro allI impI)
        fix j assume "j < Suc k"
        then show "\<not> str_includes s ((q # qs) ! j)"
          using False k(4) by (cases j) auto
      qed
      with k have "Suc k < length (q # qs) \<and> (q # qs) ! Suc k = p \<and> str_includes s p
          \<and> (\<forall>j < Suc k. \<not> str_includes s ((q # qs) ! j))" by simp
      then show ?L by blast
    qed
    with False Cons.IH show ?thesis by simp
  qed
qed




lemma typeof_string_iff: "typeof v = TString \<longleftrightarrow> (\<exists>s. v = Some (JString s))"
  by (cases v rule: typeof.cases) auto


lemma number_or_undefined_Some: "number_or_undefined v = Some n \<longleftrightarrow> v = Some (JNumber n)"
  by (cases v rule: typeof.cases) auto

lemma validateCode_engine [simp]:
  "validateCode (env\<lparr>vm_run := engine\<rparr>) src = validateCode env src"
  by (simp add: validateCode_def)

section \<open>Validation as a gate\<close>

text \<open>
  C5. When \<open>validateCode\<close> fails on the submitted text, \<open>executeCode\<close> ends with a fault, its
  trace holds no creation of a sandbox, no registration of the console hook and no run of a
  script, and its outcome is the same whatever the engine would have done: the engine is
  never consulted.
\<close>

theorem C5_validation_precedes_execution:
  assumes "validateCode env (code args) = Inl err"
  shows "isl (fst (executeCode env args))
       \<and> (\<forall>opts. SandboxCreated opts \<notin> set (snd (executeCode env args)))
       \<and> ConsoleHookRegistered \<notin> set (snd (executeCode env args))
       \<and> (\<forall>src. ScriptRun src \<notin> set (snd (executeCode env args)))
       \<and> (\<forall>engine. executeCode (env\<lparr>vm_run := engine\<rparr>) args = executeCode env args)"
  using assms by (simp add: executeCode_def catch_execution_def thrown_error_def)

theorem C5_witness:
  "validateCode (scenario None quiet)
     (code \<lparr> code = ''require(1)'', timeout = None, memory = None \<rparr>)
     = Inl (McpError InvalidRequest (validation_prefix @ forbidden_message ''require''))
   \<and> isl (fst (executeCode (scenario None quiet)
               \<lparr> code = ''require(1)'', timeout = None, memory = None \<rparr>))
   \<and> ScriptRun ''require(1)''
       \<notin> set (snd (executeCode (scenario None quiet)
                    \<lparr> code = ''require(1)'', timeout = None, memory = None \<rparr>))"
proof -
  have h: "validateCode (scenario None quiet)
             (code \<lparr> code = ''require(1)'', timeout = None, memory = None \<rparr>)
           = Inl (McpError InvalidRequest (validation_prefix @ forbidden_message ''require''))"
    by (simp add: validateCode_def scenario_def FORBIDDEN_PATTERNS_def)
  from C5_validation_precedes_execution [OF h] h show ?thesis by blast
qed

section \<open>What validateCode accepts\<close>

text \<open>
  C6. \<open>validateCode\<close> is a function of the text and of the parser's verdict alone. The
  forbidden names are the seven listed. It fails exactly when the parser rejects the text,
  or the parser accepts it and the text contains one of the names as a contiguous piece;
  it succeeds exactly when the parser accepts and none of the names occurs. A parser failure
  gives \<open>InvalidRequest\<close> with the validation prefix followed by the parser's message; among
  the names, the first of the list that occurs is the one reported.
\<close>

theorem C6_validateCode_characterisation:
  "FORBIDDEN_PATTERNS =
     [''process'', ''require'', ''__dirname'', ''__filename'', ''global'', ''Buffer'', ''eval'']
   \<and> ((\<exists>err. validateCode env src = Inl err) \<longleftrightarrow>
        parse env src \<noteq> None
        \<or> (parse env src = None
            \<and> (\<exists>p \<in> set FORBIDDEN_PATTERNS. \<exists>pre post. src = pre @ p @ post)))
   \<and> (validateCode env src = Inr () \<longleftrightarrow>
        parse env src = None
        \<and> (\<forall>p \<in> set FORBIDDEN_PATTERNS. \<not> (\<exists>pre post. src = pre @ p @ post)))
   \<and> (\<forall>msg. parse env src = Some msg \<longrightarrow>
          validateCode env src = Inl (McpError InvalidRequest (validation_prefix @ msg)))
   \<and> (\<forall>i. parse env src = None \<and> i < length FORBIDDEN_PATTERNS
            \<and> (\<exists>pre post. src = pre @ FORBIDDEN_PATTERNS ! i @ post)
            \<and> (\<forall>j < i. \<not> (\<exists>pre post. src = pre @ FORBIDDEN_PATTERNS ! j @ post)) \<longrightarrow>
          validateCode env src =
            Inl (McpError InvalidRequest
                   (validation_prefix @ forbidden_message (FORBIDDEN_PATTERNS ! i))))"
proof (intro conjI)
  show "FORBIDDEN_PATTERNS =
     [''process'', ''require'', ''__dirname'', ''__filename'', ''global'', ''Buffer'', ''eval'']"
    by (rule FORBIDDEN_PATTERNS_def)
next
  have none: "first_forbidden FORBIDDEN_PATTERNS src = None \<longleftrightarrow>
      (\<forall>p \<in> set FORBIDDEN_PATTERNS. \<not> (\<exists>pre post. src = pre @ p @ post))"
    unfolding first_forbidden_None str_includes_iff ..
  show "validateCode env src = Inr () \<longleftrightarrow>
        parse env src = None
        \<and> (\<forall>p \<in> set FORBIDDEN_PATTERNS. \<not> (\<exists>pre post. src = pre @ p @ post))"
    unfolding none [symmetric]
    by (simp add: validateCode_def split: option.splits)
  then show "(\<exists>err. validateCode env src = Inl err) \<longleftrightarrow>
        parse env src \<noteq> None
        \<or> (parse env src = None
            \<and> (\<exists>p \<in> set FORBIDDEN_PATTERNS. \<exists>pre post. src = pre @ p @ post))"
    by (cases "validateCode env src") auto
next
  show "\<forall>msg. parse env src = Some msg \<longrightarrow>
          validateCode env src = Inl (McpError InvalidRequest (validation_prefix @ msg))"
    by (simp add: validateCode_def)
next
  show "\<forall>i. parse env src = None \<and> i < length FORBIDDEN_PATTERNS
            \<and> (\<exists>pre post. src = pre @ FORBIDDEN_PATTERNS ! i @ post)
            \<and> (\<forall>j < i. \<not> (\<exists>pre post. src = pre @ FORBIDDEN_PATTERNS ! j @ post)) \<longrightarrow>
          validateCode env src =
            Inl (McpError InvalidRequest
                   (validation_prefix @ forbidden_message (FORBIDDEN_PATTERNS ! i)))"
  proof (intro allI impI)
    fix i
    assume a: "parse env src = None \<and> i < length FORBIDDEN_PATTERNS
            \<and> (\<exists>pre post. src = pre @ FORBIDDEN_PATTERNS ! i @ post)
            \<and> (\<forall>j < i. \<not> (\<exists>pre post. src = pre @ FORBIDDEN_PATTERNS ! j @ post))"
    then have "\<exists>k < length FORBIDDEN_PATTERNS. FORBIDDEN_PATTERNS ! k = FORBIDDEN_PATTERNS ! i
        \<and> str_includes src (FORBIDDEN_PATTERNS ! i)
        \<and> (\<forall>j < k. \<not> str_includes src (FORBIDDEN_PATTERNS ! j))"
      unfolding str_includes_iff by blast
    then have "first_forbidden FORBIDDEN_PATTERNS src = Some (FORBIDDEN_PATTERNS ! i)"
      unfolding first_forbidden_Some .
    with a show "validateCode env src =
            Inl (McpError InvalidRequest
                   (validation_prefix @ forbidden_message (FORBIDDEN_PATTERNS ! i)))"
      by (simp add: validateCode_def)
  qed
qed

theorem C6_witness:
  "parse (scenario None quiet) ''global.eval'' = None
   \<and> (4::nat) < length FORBIDDEN_PATTERNS
   \<and> str_includes ''global.eval'' (FORBIDDEN_PATTERNS ! 4)
   \<and> \<not> str_includes ''global.eval'' (FORBIDDEN_PATTERNS ! 0)
   \<and> \<not> str_includes ''global.eval'' (FORBIDDEN_PATTERNS ! 1)
   \<and> \<not> str_includes ''global.eval'' (FORBIDDEN_PATTERNS ! 2)
   \<and> \<not> str_includes ''global.eval'' (FORBIDDEN_PATTERNS ! 3)
   \<and> validateCode (scenario None quiet) ''global.eval''
       = Inl (McpError InvalidRequest (validation_prefix @ forbidden_message ''global''))
   \<and> parse (scenario (Some ''Unexpected token (1:0)'') quiet) '')'' = Some ''Unexpected token (1:0)''
   \<and> validateCode (scenario (Some ''Unexpected token (1:0)'') quiet) '')''
       = Inl (McpError InvalidRequest (validation_prefix @ ''Unexpected token (1:0)''))
   \<and> validateCode (scenario None quiet) ''1 + 1'' = Inr ()"
proof -
  have p: "parse (scenario None quiet) ''global.eval'' = None"
    by (simp add: scenario_def)
  have i: "(4::nat) < length FORBIDDEN_PATTERNS"
    by (simp add: FORBIDDEN_PATTERNS_def)
  have hit: "str_includes ''global.eval'' (FORBIDDEN_PATTERNS ! 4)"
    by (simp add: FORBIDDEN_PATTERNS_def)
  have miss: "\<forall>j < 4. \<not> str_includes ''global.eval'' (FORBIDDEN_PATTERNS ! j)"
  proof (intro allI impI)
    fix j :: nat assume "j < 4"
    then consider "j = 0" | "j = 1" | "j = 2" | "j = 3" by linarith
    then show "\<not> str_includes ''global.eval'' (FORBIDDEN_PATTERNS ! j)"
      by cases (simp_all add: FORBIDDEN_PATTERNS_def)
  qed
  have q: "parse (scenario (Some ''Unexpected token (1:0)'') quiet) '')''
             = Some ''Unexpected token (1:0)''"
    by (simp add: scenario_def)
  have ok: "parse (scenario None quiet) ''1 + 1'' = None
      \<and> (\<forall>p \<in> set FORBIDDEN_PATTERNS. \<not> (\<exists>pre post. ''1 + 1'' = pre @ p @ post))"
    unfolding str_includes_iff [symmetric]
    by (simp add: scenario_def FORBIDDEN_PATTERNS_def)
  note a = C6_validateCode_characterisation [of "scenario None quiet" "''global.eval''"]
  note b = C6_validateCode_characterisation
             [of "scenario (Some ''Unexpected token (1:0)'') quiet" "'')''"]
  note c = C6_validateCode_characterisation [of "scenario None quiet" "''1 + 1''"]
  have r1: "validateCode (scenario None quiet) ''global.eval''
       = Inl (McpError InvalidRequest (validation_prefix @ forbidden_message (FORBIDDEN_PATTERNS ! 4)))"
    using a p i hit miss unfolding str_includes_iff by blast
  have r2: "validateCode (scenario (Some ''Unexpected token (1:0)'') quiet) '')''
       = Inl (McpError InvalidRequest (validation_prefix @ ''Unexpected token (1:0)''))"
    using b q by blast
  have r3: "validateCode (scenario None quiet) ''1 + 1'' = Inr ()"
    using c ok by blast
  from r1 have r1': "validateCode (scenario None quiet) ''global.eval''
       = Inl (McpError InvalidRequest (validation_prefix @ forbidden_message ''global''))"
    by (simp add: FORBIDDEN_PATTERNS_def)
  have m0: "\<not> str_includes ''global.eval'' (FORBIDDEN_PATTERNS ! 0)"
    and m1: "\<not> str_includes ''global.eval'' (FORBIDDEN_PATTERNS ! 1)"
    and m2: "\<not> str_includes ''global.eval'' (FORBIDDEN_PATTERNS ! 2)"
    and m3: "\<not> str_includes ''global.eval'' (FORBIDDEN_PATTERNS ! 3)"
    using miss by simp_all
  from p i hit m0 m1 m2 m3 r1' q r2 r3 show ?thesis by blast
qed




lemma snd_respond [simp]: "snd (respond env outcome) = snd outcome"
  by (simp add: respond_def split: sum.splits)

section \<open>Limits that are not numbers\<close>



section \<open>How failures leave executeCode\<close>

text \<open>
  A fault of \<open>executeCode\<close> is either the TypeError of its own \<open>catch\<close> block or an
  \<open>McpError\<close> with code \<open>InternalError\<close> whose message is the execution prefix followed by
  the message of what was caught; it is never an \<open>McpError\<close> with code \<open>InvalidRequest\<close>.
\<close>

lemma executeCode_fault_cases:
  assumes "fst (executeCode env args) = Inl f"
  shows "f = TypeError \<or> (\<exists>v. f = Raised v)
       \<or> (\<exists>msg. f = Mcp (McpError InternalError (execution_prefix @ msg)))"
  using assms
  by (auto simp add: executeCode_def Let_def catch_execution_def thrown_error_def
           split: sum.splits completion.splits thrown.splits reading.splits conversion.splits)

lemma executeCode_never_InvalidRequest:
  "fst (executeCode env args) \<noteq> Inl (Mcp (McpError InvalidRequest msg))"
  using executeCode_fault_cases [of env args "Mcp (McpError InvalidRequest msg)"] by auto

lemma executeCode_validation_failure:
  assumes "validateCode env (code args) = Inl err"
  shows "executeCode env args =
           (Inl (Mcp (McpError InternalError (execution_prefix @ mcp_message env err))),
            [LoggerError (Text (mcp_message env err)) (code args)])"
  using assms by (simp add: executeCode_def catch_execution_def thrown_error_def)

lemma executeCode_runs_script:
  "validateCode env (code args) = Inr () \<Longrightarrow>
     ScriptRun (code args) \<in> set (snd (executeCode env args))"
  by (simp add: executeCode_def Let_def catch_execution_def
           split: completion.splits thrown.splits reading.splits conversion.splits)

lemma executeCode_engine_throw:
  assumes "validateCode env (code args) = Inr ()"
    and "completion (vm_run env (createSandbox (effectiveTimeout args) (effectiveMemory args))
                       (code args)) = Threw (ThrownValue (ReadGives logged) (Converts msg))"
  shows "fst (executeCode env args)
           = Inl (Mcp (McpError InternalError (execution_prefix @ msg)))"
  using assms by (simp add: executeCode_def Let_def catch_execution_def)

text \<open>
  The other thrown values leave \<open>executeCode\<close> unconverted: a getter of \<open>message\<close> that
  throws, and a message that the template literal cannot convert.
\<close>

lemma executeCode_engine_throw_unconverted:
  assumes "validateCode env (code args) = Inr ()"
    and "completion (vm_run env (createSandbox (effectiveTimeout args) (effectiveMemory args))
                       (code args)) = Threw error"
  shows "error = ThrownNullish \<Longrightarrow> fst (executeCode env args) = Inl TypeError"
    and "error = ThrownValue (ReadThrows v) second_read \<Longrightarrow>
           fst (executeCode env args) = Inl (Raised v)"
    and "error = ThrownValue (ReadGives logged) (ConversionThrows v) \<Longrightarrow>
           fst (executeCode env args) = Inl (Raised v)"
    and "error = ThrownValue (ReadGives logged) ConversionTypeError \<Longrightarrow>
           fst (executeCode env args) = Inl TypeError"
  using assms by (simp_all add: executeCode_def Let_def catch_execution_def)

text \<open>
  C1. A request whose code fails validation leaves the handler with the code
  \<open>InternalError\<close>: the \<open>McpError\<close> that \<open>validateCode\<close> builds with \<open>InvalidRequest\<close> is
  caught by the \<open>catch\<close> block of \<open>executeCode\<close> and wrapped again. Evaluated for the text
  \<open>require(1)\<close>, which the parser accepts and the pattern scan rejects, and for the text
  \<open>)\<close>, which the parser rejects.
\<close>

theorem C1_validation_failure_leaves_as_InternalError:
  "fst (callTool (scenario None quiet) ''execute_js'' (Some [''code'' \<mapsto> JString ''require(1)'']))
     = Inl (Mcp (McpError InternalError
              (execution_prefix @ ''MCP error -32600: '' @ validation_prefix
                 @ forbidden_message ''require'')))
   \<and> fst (callTool (scenario (Some ''Unexpected token (1:0)'') quiet) ''execute_js''
            (Some [''code'' \<mapsto> JString '')'']))
     = Inl (Mcp (McpError InternalError
              (execution_prefix @ ''MCP error -32600: '' @ validation_prefix
                 @ ''Unexpected token (1:0)'')))"
proof -
  have a: "validateCode (scenario None quiet) ''require(1)''
             = Inl (McpError InvalidRequest (validation_prefix @ forbidden_message ''require''))"
    by (simp add: validateCode_def scenario_def FORBIDDEN_PATTERNS_def)
  have b: "validateCode (scenario (Some ''Unexpected token (1:0)'') quiet) '')''
             = Inl (McpError InvalidRequest (validation_prefix @ ''Unexpected token (1:0)''))"
    by (simp add: validateCode_def scenario_def)
  have m: "mcp_message (scenario verdict quiet) = sdk_message" for verdict
    by (simp add: scenario_def)
  show ?thesis
    by (simp add: callTool_def respond_def toExecuteArgs_def executeCode_def a b
          catch_execution_def thrown_error_def m)
qed

text \<open>
  C7. When the script throws \<open>null\<close>, the \<open>catch\<close> block of \<open>executeCode\<close> fails on
  \<open>error.message\<close>: what leaves \<open>executeCode\<close> is a TypeError, not an \<open>McpError\<close>, and nothing
  is logged.
\<close>

theorem C7_thrown_null_leaves_as_TypeError:
  "executeCode (scenario None \<lparr> emitted = [], completion = Threw ThrownNullish \<rparr>)
     \<lparr> code = ''throw null'', timeout = None, memory = None \<rparr>
   = (Inl TypeError,
      [SandboxCreated \<lparr> vm_console = ConsoleRedirect, vm_sandbox = [], vm_require = False,
                        vm_timeout = 5000, vm_wrapper = WrapperNone, vm_eval = False,
                        vm_wasm = False \<rparr>,
       ConsoleHookRegistered,
       ScriptRun ''throw null''])"
proof -
  have v: "validateCode (scenario None \<lparr> emitted = [], completion = Threw ThrownNullish \<rparr>)
             ''throw null'' = Inr ()"
    by (simp add: validateCode_def scenario_def FORBIDDEN_PATTERNS_def)
  show ?thesis
    by (simp add: executeCode_def Let_def v effectiveTimeout_def DEFAULT_TIMEOUT_def
          createSandbox_def)
       (simp add: scenario_def catch_execution_def)
qed

section \<open>Limits and the sandbox configuration\<close>

text \<open>
  C2. A request with \<open>timeout = 50\<close> and \<open>memory = 1\<close>, both below the bounds of the input
  schema, is not rejected: the sandbox is created with a timeout of 50 and the script is
  run.
\<close>

theorem C2_out_of_range_limits_reach_the_sandbox:
  "callTool (scenario None quiet) ''execute_js''
     (Some [''code'' \<mapsto> JString ''1 + 1'', ''timeout'' \<mapsto> JNumber 50, ''memory'' \<mapsto> JNumber 1])
   = (Inr (TextContent ''undefined''),
      [SandboxCreated \<lparr> vm_console = ConsoleRedirect, vm_sandbox = [], vm_require = False,
                        vm_timeout = 50, vm_wrapper = WrapperNone, vm_eval = False,
                        vm_wasm = False \<rparr>,
       ConsoleHookRegistered,
       ScriptRun ''1 + 1'',
       LoggerInfo 2 4194304 5])"
proof -
  have v: "validateCode (scenario None quiet) ''1 + 1'' = Inr ()"
    by (simp add: validateCode_def scenario_def FORBIDDEN_PATTERNS_def)
  show ?thesis
    by (simp add: callTool_def respond_def toExecuteArgs_def executeCode_def Let_def v
          effectiveTimeout_def createSandbox_def)
       (simp add: scenario_def quiet_def)
qed

text \<open>
  C3. The options built by \<open>createSandbox\<close> for the defaults: console redirected, an empty
  sandbox object, no \<open>require\<close>, no \<open>eval\<close>, no WebAssembly, and the timeout. The memory bound
  is not among them: another memory argument gives the same options.
\<close>

theorem C3_createSandbox_drops_memory:
  "(createSandbox 5000 52428800 :: string NodeVMOptions)
     = \<lparr> vm_console = ConsoleRedirect, vm_sandbox = [], vm_require = False,
         vm_timeout = 5000, vm_wrapper = WrapperNone, vm_eval = False, vm_wasm = False \<rparr>
   \<and> (createSandbox 5000 52428800 :: string NodeVMOptions) = createSandbox 5000 1048576"
  by (simp add: createSandbox_def)

section \<open>The code argument\<close>

text \<open>
  C8, as amended. A request without arguments, or whose \<open>code\<close> is absent or not a string,
  is rejected with \<open>InvalidRequest\<close> before anything else happens. A request whose \<open>code\<close>
  is a string, the empty string included, is handed to \<open>executeCode\<close> with that string
  unchanged, and the string is run whenever it passes validation.
\<close>

theorem C8_code_must_be_a_string:
  "(arguments = None \<or> (\<exists>args. arguments = Some args \<and> typeof (args ''code'') \<noteq> TString) \<longrightarrow>
      callTool env ''execute_js'' arguments
        = (Inl (Mcp (McpError InvalidRequest code_required_message)), []))
   \<and> (\<forall>args src. arguments = Some args \<and> args ''code'' = Some (JString src) \<longrightarrow>
        callTool env ''execute_js'' arguments
          = respond env (executeCode env (toExecuteArgs src args))
        \<and> code (toExecuteArgs src args) = src
        \<and> (validateCode env src = Inr () \<longrightarrow>
             ScriptRun src \<in> set (snd (callTool env ''execute_js'' arguments))))"
proof (intro conjI allI impI)
  assume "arguments = None \<or> (\<exists>args. arguments = Some args \<and> typeof (args ''code'') \<noteq> TString)"
  then consider "arguments = None"
    | args where "arguments = Some args" "typeof (args ''code'') \<noteq> TString" by blast
  then show "callTool env ''execute_js'' arguments
        = (Inl (Mcp (McpError InvalidRequest code_required_message)), [])"
  proof cases
    case 1
    then show ?thesis by (simp add: callTool_def)
  next
    case 2
    from 2(2) have "\<And>s. args ''code'' \<noteq> Some (JString s)"
      using typeof_string_iff by blast
    with 2(1) show ?thesis
      by (simp add: callTool_def split: option.splits json.splits)
  qed
next
  fix args src
  assume a: "arguments = Some args \<and> args ''code'' = Some (JString src)"
  then show call: "callTool env ''execute_js'' arguments
          = respond env (executeCode env (toExecuteArgs src args))"
    by (simp add: callTool_def)
  show c: "code (toExecuteArgs src args) = src"
    by (simp add: toExecuteArgs_def)
  assume "validateCode env src = Inr ()"
  then have "ScriptRun (code (toExecuteArgs src args))
               \<in> set (snd (executeCode env (toExecuteArgs src args)))"
    using executeCode_runs_script [of env "toExecuteArgs src args"] c by simp
  then show "ScriptRun src \<in> set (snd (callTool env ''execute_js'' arguments))"
    using call c by simp
qed

theorem C8_witness:
  "callTool (scenario None quiet) ''execute_js'' None
     = (Inl (Mcp (McpError InvalidRequest code_required_message)), [])
   \<and> typeof ([''code'' \<mapsto> JNumber 7] ''code'') \<noteq> TString
   \<and> callTool (scenario None quiet) ''execute_js'' (Some [''code'' \<mapsto> JNumber 7])
     = (Inl (Mcp (McpError InvalidRequest code_required_message)), [])
   \<and> [''code'' \<mapsto> JString ''1 + 1''] ''code'' = Some (JString ''1 + 1'')
   \<and> validateCode (scenario None quiet) ''1 + 1'' = Inr ()
   \<and> ScriptRun ''1 + 1''
       \<in> set (snd (callTool (scenario None quiet) ''execute_js''
                      (Some [''code'' \<mapsto> JString ''1 + 1''])))"
proof -
  have t: "typeof ([''code'' \<mapsto> JNumber 7] ''code'') \<noteq> TString" by simp
  have s: "[''code'' \<mapsto> JString ''1 + 1''] ''code'' = Some (JString ''1 + 1'')" by simp
  have v: "validateCode (scenario None quiet) ''1 + 1'' = Inr ()"
    by (simp add: validateCode_def scenario_def FORBIDDEN_PATTERNS_def)
  note a = C8_code_must_be_a_string [where env = "scenario None quiet" and arguments = None]
  note b = C8_code_must_be_a_string
             [where env = "scenario None quiet" and arguments = "Some [''code'' \<mapsto> JNumber 7]"]
  note c = C8_code_must_be_a_string
             [where env = "scenario None quiet"
                and arguments = "Some [''code'' \<mapsto> JString ''1 + 1'']"]
  have r1: "callTool (scenario None quiet) ''execute_js'' None
     = (Inl (Mcp (McpError InvalidRequest code_required_message)), [])"
    using a by blast
  have r2: "callTool (scenario None quiet) ''execute_js'' (Some [''code'' \<mapsto> JNumber 7])
     = (Inl (Mcp (McpError InvalidRequest code_required_message)), [])"
    using b t by blast
  have r3: "ScriptRun ''1 + 1''
       \<in> set (snd (callTool (scenario None quiet) ''execute_js''
                      (Some [''code'' \<mapsto> JString ''1 + 1''])))"
    using c s v by blast
  from r1 t r2 s v r3 show ?thesis by blast
qed

text \<open>
  C8 as stated fails for the empty string, which the parser accepts: the request is
  answered with a result, and the trace shows the sandbox created and the empty script run.
\<close>

theorem C8_counterexample:
  "callTool (scenario None quiet) ''execute_js'' (Some [''code'' \<mapsto> JString ''''])
   = (Inr (TextContent ''undefined''),
      [SandboxCreated \<lparr> vm_console = ConsoleRedirect, vm_sandbox = [], vm_require = False,
                        vm_timeout = 5000, vm_wrapper = WrapperNone, vm_eval = False,
                        vm_wasm = False \<rparr>,
       ConsoleHookRegistered,
       ScriptRun '''',
       LoggerInfo 2 4194304 0])"
proof -
  have v: "validateCode (scenario None quiet) '''' = Inr ()"
    by (simp add: validateCode_def scenario_def FORBIDDEN_PATTERNS_def)
  show ?thesis
    by (simp add: callTool_def respond_def toExecuteArgs_def executeCode_def Let_def v
          effectiveTimeout_def DEFAULT_TIMEOUT_def createSandbox_def)
       (simp add: scenario_def quiet_def)
qed

section \<open>Console output\<close>




end
